theory Spec2Isabelle
  imports Main
begin

section \<open>Chitral Concierge: the request pipeline of main.py\<close>

text \<open>
  The program is a Streamlit script: a form handler calls \<open>get_web_context\<close> (a Tavily
  web search) and then \<open>get_ai_response_with_context\<close> (an OpenAI chat completion) and
  renders the answer and its sources. The two providers are parameters of the model;
  everything the script does to the page, to the session state and to the network is
  written into a chronological log.

  Strings are lists of characters with code points below 256; the two emoji that
  decorate the sub-header and the expander label are left out of those labels, and the
  sampling temperature of the chat call (a float constant) is not recorded.
\<close>

subsection \<open>Python values\<close>

text \<open>Truthiness of an optional string: \<open>None\<close> and \<open>""\<close> are falsy.\<close>

definition truthy :: "string option \<Rightarrow> bool" where
  "truthy v = (case v of None \<Rightarrow> False | Some s \<Rightarrow> s \<noteq> [])"

text \<open>The exceptions that the modelled statements can raise, and \<open>str(e)\<close>.\<close>

datatype exn = KeyError string | IndexError | AttributeError | ProviderError string

fun str_exn :: "exn \<Rightarrow> string" where
  "str_exn (KeyError k) = [CHR 0x27] @ k @ [CHR 0x27]"
| "str_exn IndexError = ''list index out of range''"
| "str_exn AttributeError =
     [CHR 0x27] @ ''NoneType'' @ [CHR 0x27] @ '' object has no attribute ''
       @ [CHR 0x27] @ ''strip'' @ [CHR 0x27]"
| "str_exn (ProviderError m) = m"

text \<open>\<open>sep.join(parts)\<close>.\<close>

fun join :: "string \<Rightarrow> string list \<Rightarrow> string" where
  "join sep [] = []"
| "join sep [p] = p"
| "join sep (p # q # ps) = p @ sep @ join sep (q # ps)"

text \<open>\<open>str.strip()\<close>: the characters below 256 for which \<open>str.isspace\<close> holds.\<close>

definition is_space :: "char \<Rightarrow> bool" where
  "is_space c = (c \<in> set [CHR 0x09, CHR 0x0A, CHR 0x0B, CHR 0x0C, CHR 0x0D,
                            CHR 0x1C, CHR 0x1D, CHR 0x1E, CHR 0x1F, CHR 0x20,
                            CHR 0x85, CHR 0xA0])"

definition strip :: "string \<Rightarrow> string" where
  "strip s = rev (dropWhile is_space (rev (dropWhile is_space s)))"

text \<open>\<open>str(n)\<close> for the 1-based index of a source.\<close>

definition digit_char :: "nat \<Rightarrow> char" where
  "digit_char d = ''0123456789'' ! d"

fun str_nat :: "nat \<Rightarrow> string" where
  "str_nat n = (if n < 10 then [digit_char n] else str_nat (n div 10) @ [digit_char (n mod 10)])"

declare str_nat.simps [simp del]

subsection \<open>Providers, configuration and effects\<close>

text \<open>A search hit is a dictionary of string fields (\<open>url\<close>, \<open>title\<close>, \<open>content\<close>).\<close>

type_synonym source = "(string \<times> string) list"

definition getitem :: "source \<Rightarrow> string \<Rightarrow> exn + string" where
  "getitem d k = (case map_of d k of None \<Rightarrow> Inl (KeyError k) | Some v \<Rightarrow> Inr v)"

text \<open>
  What \<open>tavily_client.search\<close> returns: a falsy response (\<open>None\<close> or an empty
  dictionary), or a dictionary whose \<open>results\<close> entry is missing or a list of hits.
\<close>

datatype tavily_response = NoResponse | Response "source list option"

text \<open>
  The module-level configuration and the two providers. A provider either raises or
  returns; the chat provider returns the message contents of its choices, each of which
  may be \<open>None\<close>.
\<close>

record env =
  tavily_api_key :: "string option"
  openai_api_key :: "string option"
  tavily_search :: "string \<Rightarrow> exn + tavily_response"
  chat_create :: "(string \<times> string) list \<Rightarrow> exn + string option list"

datatype event =
    Warning string
  | Error string
  | Markdown string
  | Subheader string
  | Spinner string
  | Expander string
  | SessionWrite string
  | SearchCall string string nat
  | ChatCall string "(string \<times> string) list"

record world =
  search_query :: "string option"
  log :: "event list"

definition emit :: "event \<Rightarrow> world \<Rightarrow> world" where
  "emit e w = w\<lparr>log := log w @ [e]\<rparr>"

subsection \<open>get_web_context\<close>

definition no_results_context :: string where
  "no_results_context = ''No relevant information found from web search.''"

definition context_separator :: string where
  "context_separator = ''\<newline>\<newline>---\<newline>\<newline>''"

definition make_search_query :: "string \<Rightarrow> string" where
  "make_search_query query = ''latest information on '' @ query @ '' in Chitral, Pakistan''"

definition context_part :: "source \<Rightarrow> exn + string" where
  "context_part result =
     (case getitem result ''url'' of
        Inl e \<Rightarrow> Inl e
      | Inr u \<Rightarrow>
          (case getitem result ''content'' of
             Inl e \<Rightarrow> Inl e
           | Inr c \<Rightarrow> Inr (''Source URL: '' @ u @ ''\<newline>Content: '' @ c)))"

text \<open>The \<open>for result in sources\<close> loop, appending to \<open>context_parts\<close>.\<close>

fun build_context_parts :: "source list \<Rightarrow> string list \<Rightarrow> exn + string list" where
  "build_context_parts [] context_parts = Inr context_parts"
| "build_context_parts (result # rest) context_parts =
     (case context_part result of
        Inl e \<Rightarrow> Inl e
      | Inr p \<Rightarrow> build_context_parts rest (context_parts @ [p]))"

text \<open>The body of the \<open>try\<close> block: \<open>Inl\<close> is an exception on its way to the handler.\<close>

definition web_search_try ::
  "env \<Rightarrow> string \<Rightarrow> world \<Rightarrow> (exn + string option \<times> source list) \<times> world" where
  "web_search_try cfg search_q w =
     (let w1 = emit (SearchCall search_q ''advanced'' 5) w in
      case tavily_search cfg search_q of
        Inl e \<Rightarrow> (Inl e, w1)
      | Inr NoResponse \<Rightarrow> (Inr (Some no_results_context, []), w1)
      | Inr (Response None) \<Rightarrow> (Inr (Some no_results_context, []), w1)
      | Inr (Response (Some [])) \<Rightarrow> (Inr (Some no_results_context, []), w1)
      | Inr (Response (Some (r # rs))) \<Rightarrow>
          (case build_context_parts (r # rs) [] of
             Inl e \<Rightarrow> (Inl e, w1)
           | Inr context_parts \<Rightarrow>
               (Inr (Some (join context_separator context_parts), r # rs), w1)))"

definition get_web_context ::
  "env \<Rightarrow> string \<Rightarrow> world \<Rightarrow> (string option \<times> source list) \<times> world" where
  "get_web_context cfg query w =
     (if \<not> truthy (tavily_api_key cfg) then
        ((None, []), emit (Warning ''Tavily API key not found. Web search is disabled.'') w)
      else
        let search_q = make_search_query query;
            w1 = emit (SessionWrite search_q) (w\<lparr>search_query := Some search_q\<rparr>)
        in case web_search_try cfg search_q w1 of
             (Inl e, w2) \<Rightarrow>
               ((None, []),
                emit (Error (''An error occurred during web search: '' @ str_exn e)) w2)
           | (Inr r, w2) \<Rightarrow> (r, w2))"

subsection \<open>get_ai_response_with_context\<close>

definition not_configured_message :: string where
  "not_configured_message = ''Error: OpenAI API key is not configured.''"

definition context_system_message :: string where
  "context_system_message =
     ''You are a helpful assistant specializing in Chitral, Pakistan. '' @
     ''Use the provided '' @ [CHR 0x27] @ ''Web Context'' @ [CHR 0x27] @
     '' from a search to give a comprehensive and up-to-date answer to the user'' @
     [CHR 0x27] @ ''s question. '' @
     ''Synthesize the information from the context into your response.''"

definition general_system_message :: string where
  "general_system_message =
     ''You are a helpful assistant specializing in Chitral, Pakistan. '' @
     ''Answer the user'' @ [CHR 0x27] @ ''s question based on your general knowledge. '' @
     ''Mention that web search was not available or did not return relevant information.''"

definition context_user_prompt :: "string \<Rightarrow> string \<Rightarrow> string" where
  "context_user_prompt query web_context =
     ''\<newline>        Web Context:\<newline>        ---\<newline>        '' @ web_context @
     ''\<newline>        ---\<newline>        Question: '' @ query @ ''\<newline>        ''"

text \<open>The two-branch prompt policy: \<open>if web_context: ... else: ...\<close>.\<close>

definition build_prompt :: "string \<Rightarrow> string option \<Rightarrow> string \<times> string" where
  "build_prompt query web_context =
     (case web_context of
        None \<Rightarrow> (general_system_message, query)
      | Some c \<Rightarrow>
          (if c \<noteq> [] then (context_system_message, context_user_prompt query c)
           else (general_system_message, query)))"

definition chat_try ::
  "env \<Rightarrow> string \<Rightarrow> string \<Rightarrow> world \<Rightarrow> (exn + string) \<times> world" where
  "chat_try cfg system_message user_prompt w =
     (let messages = [(''system'', system_message), (''user'', user_prompt)];
          w1 = emit (ChatCall ''gpt-4'' messages) w in
      case chat_create cfg messages of
        Inl e \<Rightarrow> (Inl e, w1)
      | Inr [] \<Rightarrow> (Inl IndexError, w1)
      | Inr (None # _) \<Rightarrow> (Inl AttributeError, w1)
      | Inr (Some content # _) \<Rightarrow> (Inr (strip content), w1))"

definition get_ai_response_with_context ::
  "env \<Rightarrow> string \<Rightarrow> string option \<Rightarrow> world \<Rightarrow> string option \<times> world" where
  "get_ai_response_with_context cfg query web_context w =
     (if \<not> truthy (openai_api_key cfg) then (Some not_configured_message, w)
      else
        case build_prompt query web_context of
          (system_message, user_prompt) \<Rightarrow>
            (case chat_try cfg system_message user_prompt w of
               (Inl e, w1) \<Rightarrow>
                 (None, emit (Error (''An OpenAI API error occurred: '' @ str_exn e)) w1)
             | (Inr answer, w1) \<Rightarrow> (Some answer, w1)))"

subsection \<open>The form submission handler\<close>

definition source_line :: "nat \<Rightarrow> source \<Rightarrow> exn + string" where
  "source_line i src =
     (case getitem src ''title'' of
        Inl e \<Rightarrow> Inl e
      | Inr t \<Rightarrow>
          (case getitem src ''url'' of
             Inl e \<Rightarrow> Inl e
           | Inr u \<Rightarrow>
               Inr (''**'' @ str_nat (i + 1) @ ''. '' @ t @ ''**\<newline>'' @
                    ''   [Read more]('' @ u @ '')'')))"

text \<open>
  \<open>for i, source in enumerate(sources)\<close>, with \<open>i\<close> the index reached: an exception raised here is not caught by the
  script, so it is returned next to the world reached so far.
\<close>

fun show_sources :: "nat \<Rightarrow> source list \<Rightarrow> world \<Rightarrow> exn option \<times> world" where
  "show_sources i [] w = (None, w)"
| "show_sources i (src # rest) w =
     (case source_line i src of
        Inl e \<Rightarrow> (Some e, w)
      | Inr line \<Rightarrow> show_sources (i + 1) rest (emit (Markdown line) w))"

definition failure_notice :: string where
  "failure_notice = ''Sorry, I encountered an issue and was unable to process your request.''"

definition validation_notice :: string where
  "validation_notice = ''Please ask a question first.''"

text \<open>What follows the two calls: the sub-header and the \<open>if final_response:\<close> test.\<close>

definition present :: "string option \<Rightarrow> source list \<Rightarrow> world \<Rightarrow> exn option \<times> world" where
  "present final_response sources w =
     (let w1 = emit (Subheader ''Concierge Response:'') w in
      case final_response of
        None \<Rightarrow> (None, emit (Error failure_notice) w1)
      | Some answer \<Rightarrow>
          (if answer \<noteq> [] then
             (let w2 = emit (Markdown answer) w1 in
              if sources \<noteq> [] then show_sources 0 sources (emit (Expander ''View Sources Used'') w2)
              else (None, w2))
           else (None, emit (Error failure_notice) w1)))"

definition search_spinner_text :: "string \<Rightarrow> string" where
  "search_spinner_text user_input =
     ''Searching for the latest information on '' @ [CHR 0x27] @ user_input @ [CHR 0x27] @ ''...''"

definition answer_spinner_text :: string where
  "answer_spinner_text =
     ''Scaling the mountains of knowledge and exploring the valleys of the web for you...''"

text \<open>The body of \<open>if submitted:\<close>, for the text the form holds.\<close>

definition on_submit :: "env \<Rightarrow> string \<Rightarrow> world \<Rightarrow> exn option \<times> world" where
  "on_submit cfg user_input w =
     (if user_input \<noteq> [] then
        (case get_web_context cfg user_input (emit (Spinner (search_spinner_text user_input)) w) of
           ((web_context, sources), w2) \<Rightarrow>
             (case get_ai_response_with_context cfg user_input web_context
                     (emit (Spinner answer_spinner_text) w2) of
                (final_response, w4) \<Rightarrow> present final_response sources w4))
      else (None, emit (Warning validation_notice) w))"

subsection \<open>Observations on the log and example inputs\<close>

fun is_provider_call :: "event \<Rightarrow> bool" where
  "is_provider_call (SearchCall _ _ _) = True"
| "is_provider_call (ChatCall _ _) = True"
| "is_provider_call _ = False"

definition provider_calls :: "world \<Rightarrow> event list" where
  "provider_calls w = filter is_provider_call (log w)"


text \<open>The hits of a response, as the \<open>results\<close> test of the search reads them.\<close>

definition hits :: "tavily_response \<Rightarrow> source list" where
  "hits response = (case response of NoResponse \<Rightarrow> [] | Response None \<Rightarrow> [] | Response (Some rs) \<Rightarrow> rs)"

text \<open>A hit that carries the \<open>url\<close> and \<open>content\<close> the context is built from.\<close>

definition has_fields :: "source \<Rightarrow> string \<times> string \<Rightarrow> bool" where
  "has_fields result uc = (map_of result ''url'' = Some (fst uc) \<and> map_of result ''content'' = Some (snd uc))"

definition complete :: "source \<Rightarrow> bool" where
  "complete result = (map_of result ''url'' \<noteq> None \<and> map_of result ''content'' \<noteq> None)"

text \<open>
  The context as the specification words it: one entry
  \<open>Source URL: <url>\nContent: <content>\<close> per record, in order, with the separator
  between neighbours.
\<close>

definition spec_entry :: "string \<times> string \<Rightarrow> string" where
  "spec_entry uc = ''Source URL: '' @ fst uc @ ''\<newline>Content: '' @ snd uc"

fun spec_context :: "(string \<times> string) list \<Rightarrow> string" where
  "spec_context [] = []"
| "spec_context [uc] = spec_entry uc"
| "spec_context (uc # rest) = spec_entry uc @ ''\<newline>\<newline>---\<newline>\<newline>'' @ spec_context rest"

text \<open>A fresh session, and a configuration whose providers answer the same way to every request.\<close>

definition idle :: world where
  "idle = \<lparr>search_query = None, log = []\<rparr>"

definition fixed_env ::
  "string option \<Rightarrow> string option \<Rightarrow> exn + tavily_response \<Rightarrow> exn + string option list \<Rightarrow> env" where
  "fixed_env tavily_key openai_key search_result chat_result =
     \<lparr>tavily_api_key = tavily_key, openai_api_key = openai_key,
      tavily_search = (\<lambda>_. search_result), chat_create = (\<lambda>_. chat_result)\<rparr>"

definition kalash_hits :: "source list" where
  "kalash_hits =
     [[(''url'', ''A''), (''title'', ''Kalash''), (''content'', ''X'')],
      [(''url'', ''B''), (''title'', ''Bumburet''), (''content'', ''Y'')]]"

section \<open>Properties\<close>

subsection \<open>Missing configuration\<close>

text \<open>
  C6. When the search-provider key is absent (\<open>None\<close>, or the empty string, which the
  test \<open>not tavily_api_key\<close> treats alike), \<open>get_web_context\<close> returns
  \<open>(None, [])\<close> for every question; the only effect is the warning that web search is
  disabled: no provider call is logged and the session state keeps its value.
\<close>

theorem search_key_absent:
  "\<not> truthy (tavily_api_key cfg) \<Longrightarrow>
   get_web_context cfg query w =
     ((None, []),
      w\<lparr>log := log w @ [Warning ''Tavily API key not found. Web search is disabled.'']\<rparr>)
   \<and> provider_calls (snd (get_web_context cfg query w)) = provider_calls w
   \<and> search_query (snd (get_web_context cfg query w)) = search_query w"
  by (simp add: get_web_context_def emit_def provider_calls_def)

theorem search_key_absent_witness:
  "get_web_context
     (fixed_env None (Some ''ok'') (Inr (Response (Some kalash_hits))) (Inr [Some ''Chitral'']))
     ''best places in Kalash Valleys'' idle =
   ((None, []),
    \<lparr>search_query = None,
     log = [Warning ''Tavily API key not found. Web search is disabled.'']\<rparr>)"
  using search_key_absent
    [of "fixed_env None (Some ''ok'') (Inr (Response (Some kalash_hits))) (Inr [Some ''Chitral''])"
        "''best places in Kalash Valleys''" idle]
  by (simp add: fixed_env_def truthy_def idle_def)

text \<open>
  C7. When the chat-provider key is absent, \<open>get_ai_response_with_context\<close> returns the
  fixed configuration-error string, a present value, for every question and context, and
  leaves the world as it was: no provider call is made.
\<close>

theorem chat_key_absent:
  "\<not> truthy (openai_api_key cfg) \<Longrightarrow>
   get_ai_response_with_context cfg query web_context w =
     (Some ''Error: OpenAI API key is not configured.'', w)"
  by (simp add: get_ai_response_with_context_def not_configured_message_def)

theorem chat_key_absent_witness:
  "get_ai_response_with_context
     (fixed_env (Some ''tk'') None (Inr NoResponse) (Inr [Some ''Chitral'']))
     ''where is Chitral'' (Some ''Source URL: A'') idle =
   (Some ''Error: OpenAI API key is not configured.'', idle)"
  using chat_key_absent
    [of "fixed_env (Some ''tk'') None (Inr NoResponse) (Inr [Some ''Chitral''])"
        "''where is Chitral''" "Some ''Source URL: A''" idle]
  by (simp add: fixed_env_def truthy_def)

subsection \<open>The search stage\<close>

text \<open>The loop collects one entry per hit, in order, behind what was collected before.\<close>

lemma build_context_parts_fields:
  "list_all2 has_fields results ucs \<Longrightarrow>
   build_context_parts results acc = Inr (acc @ map spec_entry ucs)"
  by (induction arbitrary: acc rule: list_all2_induct)
     (simp_all add: context_part_def getitem_def has_fields_def spec_entry_def)

lemma join_spec_context: "join context_separator (map spec_entry ucs) = spec_context ucs"
  by (induction ucs rule: spec_context.induct) (simp_all add: context_separator_def)

lemma web_search_try_hits:
  assumes "tavily_search cfg q = Inr (Response (Some results))"
    and "results \<noteq> []"
    and "list_all2 has_fields results ucs"
  shows "web_search_try cfg q w =
           (Inr (Some (spec_context ucs), results), emit (SearchCall q ''advanced'' 5) w)"
proof -
  obtain r rs where rs: "results = r # rs"
    using assms(2) by (cases results) auto
  have "build_context_parts (r # rs) [] = Inr (map spec_entry ucs)"
    using build_context_parts_fields [OF assms(3), of "[]"] rs by simp
  then show ?thesis
    using assms(1) rs by (simp add: web_search_try_def join_spec_context)
qed

lemma web_search_try_no_hits:
  assumes "tavily_search cfg q = Inr response" and "hits response = []"
  shows "web_search_try cfg q w =
           (Inr (Some no_results_context, []), emit (SearchCall q ''advanced'' 5) w)"
  using assms
  by (simp add: web_search_try_def hits_def split: tavily_response.splits option.splits list.splits)

lemma web_search_try_raises:
  assumes "tavily_search cfg q = Inl e"
  shows "web_search_try cfg q w = (Inl e, emit (SearchCall q ''advanced'' 5) w)"
  using assms by (simp add: web_search_try_def)

lemma web_search_try_world:
  "snd (web_search_try cfg q w) = emit (SearchCall q ''advanced'' 5) w"
  by (simp add: web_search_try_def Let_def
           split: sum.splits tavily_response.splits option.splits list.splits)

lemma complete_fields:
  "list_all complete results \<Longrightarrow>
   list_all2 has_fields results
     (map (\<lambda>r. (the (map_of r ''url''), the (map_of r ''content''))) results)"
  by (induction results) (auto simp: complete_def has_fields_def)

lemma spec_context_starts:
  "ucs \<noteq> [] \<Longrightarrow> \<exists>t. spec_context ucs = CHR ''S'' # t"
  by (induction ucs rule: spec_context.induct) (simp_all add: spec_entry_def)

text \<open>
  C5. For every question and every non-empty sequence of hits returned by the search
  provider, each carrying a \<open>url\<close> and a \<open>content\<close>, the context that
  \<open>get_web_context\<close> returns is the specification's join: the entries
  \<open>Source URL: <url>\nContent: <content>\<close>, one per hit in the provider's order,
  separated by \<open>\n\n---\n\n\<close>; the hits are returned as they came. The witness is
  the scenario with urls A, B and contents X, Y.
\<close>

theorem context_is_ordered_join:
  assumes "truthy (tavily_api_key cfg)"
    and "tavily_search cfg (make_search_query query) = Inr (Response (Some results))"
    and "results \<noteq> []"
    and "list_all2 has_fields results ucs"
  shows "fst (get_web_context cfg query w) = (Some (spec_context ucs), results)"
  using assms(1) web_search_try_hits [OF assms(2-4)]
  by (simp add: get_web_context_def Let_def)

theorem context_is_ordered_join_witness:
  "fst (get_web_context
          (fixed_env (Some ''tk'') (Some ''ok'') (Inr (Response (Some kalash_hits))) (Inr [Some ''Chitral'']))
          ''best places in Kalash Valleys'' idle) =
   (Some ''Source URL: A\<newline>Content: X\<newline>\<newline>---\<newline>\<newline>Source URL: B\<newline>Content: Y'',
    kalash_hits)"
  using context_is_ordered_join
    [of "fixed_env (Some ''tk'') (Some ''ok'') (Inr (Response (Some kalash_hits))) (Inr [Some ''Chitral''])"
        "''best places in Kalash Valleys''" kalash_hits "[(''A'', ''X''), (''B'', ''Y'')]" idle]
  by (simp add: fixed_env_def truthy_def kalash_hits_def has_fields_def spec_entry_def)

text \<open>
  C2, as stated, fails: with a configured key and a provider that returns an empty
  \<open>results\<close> list, the context is present (the sentinel) while no source is returned.
\<close>

theorem sentinel_context_without_sources:
  "\<not> (fst (fst (get_web_context
                  (fixed_env (Some ''tk'') (Some ''ok'') (Inr (Response (Some []))) (Inr [Some ''Chitral'']))
                  ''hi'' idle)) \<noteq> None
       \<longleftrightarrow>
       snd (fst (get_web_context
                  (fixed_env (Some ''tk'') (Some ''ok'') (Inr (Response (Some []))) (Inr [Some ''Chitral'']))
                  ''hi'' idle)) \<noteq> [])"
  by (simp add: get_web_context_def web_search_try_def fixed_env_def truthy_def Let_def)

text \<open>
  C2, amended. With the search key configured, a provider that returns, and hits that all
  carry \<open>url\<close> and \<open>content\<close> (so that nothing raises), the context is always
  present and the sources are the provider's hits; the sources are empty exactly when the
  context is the sentinel \<open>No relevant information found from web search.\<close>
\<close>

theorem context_present_when_searched:
  assumes "truthy (tavily_api_key cfg)"
    and "tavily_search cfg (make_search_query query) = Inr response"
    and "list_all complete (hits response)"
  shows "\<exists>c. fst (get_web_context cfg query w) = (Some c, hits response)
           \<and> (hits response = [] \<longleftrightarrow> c = no_results_context)"
proof (cases "hits response = []")
  case True
  then show ?thesis
    using assms(1) web_search_try_no_hits [OF assms(2) True]
    by (simp add: get_web_context_def Let_def)
next
  case False
  define ucs where "ucs = map (\<lambda>r. (the (map_of r ''url''), the (map_of r ''content''))) (hits response)"
  have fields: "list_all2 has_fields (hits response) ucs"
    unfolding ucs_def using assms(3) by (rule complete_fields)
  have resp: "response = Response (Some (hits response))"
    using False by (simp add: hits_def split: tavily_response.splits option.splits)
  have "tavily_search cfg (make_search_query query) = Inr (Response (Some (hits response)))"
    using assms(2) resp by simp
  from web_search_try_hits [OF this False fields]
  have ctx: "fst (get_web_context cfg query w) = (Some (spec_context ucs), hits response)"
    using assms(1) by (simp add: get_web_context_def Let_def)
  have "ucs \<noteq> []" using False by (simp add: ucs_def)
  then obtain t where "spec_context ucs = CHR ''S'' # t"
    using spec_context_starts by blast
  then have "spec_context ucs \<noteq> no_results_context"
    by (simp add: no_results_context_def)
  with ctx False show ?thesis by simp
qed

theorem context_present_when_searched_witness:
  "(\<exists>c. fst (get_web_context
               (fixed_env (Some ''tk'') (Some ''ok'') (Inr (Response (Some kalash_hits))) (Inr [Some ''Chitral'']))
               ''hi'' idle) = (Some c, kalash_hits)
         \<and> c \<noteq> no_results_context)
   \<and> kalash_hits \<noteq> []"
  using context_present_when_searched
    [of "fixed_env (Some ''tk'') (Some ''ok'') (Inr (Response (Some kalash_hits))) (Inr [Some ''Chitral''])"
        "''hi''" "Response (Some kalash_hits)" idle]
  by (simp add: fixed_env_def truthy_def hits_def kalash_hits_def complete_def)

text \<open>What \<open>get_web_context\<close> returns and logs on its two degraded paths.\<close>

lemma get_web_context_no_hits:
  assumes "truthy (tavily_api_key cfg)"
    and "tavily_search cfg (make_search_query query) = Inr response"
    and "hits response = []"
  shows "get_web_context cfg query w =
           ((Some no_results_context, []),
            \<lparr>search_query = Some (make_search_query query),
             log = log w @ [SessionWrite (make_search_query query),
                            SearchCall (make_search_query query) ''advanced'' 5]\<rparr>)"
  using assms(1) web_search_try_no_hits [OF assms(2,3)]
  by (simp add: get_web_context_def Let_def emit_def)

lemma get_web_context_raises:
  assumes "truthy (tavily_api_key cfg)"
    and "tavily_search cfg (make_search_query query) = Inl e"
  shows "get_web_context cfg query w =
           ((None, []),
            \<lparr>search_query = Some (make_search_query query),
             log = log w @ [SessionWrite (make_search_query query),
                            SearchCall (make_search_query query) ''advanced'' 5,
                            Error (''An error occurred during web search: '' @ str_exn e)]\<rparr>)"
  using assms(1) web_search_try_raises [OF assms(2)]
  by (simp add: get_web_context_def Let_def emit_def)

text \<open>
  C10. Whenever the search key is configured, \<open>get_web_context\<close> stores the derived
  query \<open>latest information on <question> in Chitral, Pakistan\<close> in the session state
  and does so before the search call is issued (the write precedes the call in the log).
  The stored value is the new query on every path; in particular, when the provider call
  raises, \<open>(None, [])\<close> is returned and the session still holds the new query: nothing
  restores the previous one.
\<close>

theorem search_query_written_before_call:
  assumes "truthy (tavily_api_key cfg)"
  shows "search_query (snd (get_web_context cfg query w)) = Some (make_search_query query)
       \<and> (\<exists>rest. log (snd (get_web_context cfg query w)) =
             log w @ SessionWrite (make_search_query query)
                   # SearchCall (make_search_query query) ''advanced'' 5 # rest)
       \<and> (\<forall>e. tavily_search cfg (make_search_query query) = Inl e \<longrightarrow>
             get_web_context cfg query w =
               ((None, []),
                \<lparr>search_query = Some (make_search_query query),
                 log = log w @ [SessionWrite (make_search_query query),
                                SearchCall (make_search_query query) ''advanced'' 5,
                                Error (''An error occurred during web search: '' @ str_exn e)]\<rparr>))"
proof -
  let ?q = "make_search_query query"
  let ?w1 = "emit (SessionWrite ?q) (w\<lparr>search_query := Some ?q\<rparr>)"
  obtain r w2 where run: "web_search_try cfg ?q ?w1 = (r, w2)"
    by (cases "web_search_try cfg ?q ?w1")
  have w2: "w2 = emit (SearchCall ?q ''advanced'' 5) ?w1"
    using web_search_try_world [of cfg ?q ?w1] run by simp
  have "search_query (snd (get_web_context cfg query w)) = Some ?q"
    using assms run w2 by (cases r) (simp_all add: get_web_context_def Let_def emit_def)
  moreover have "\<exists>rest. log (snd (get_web_context cfg query w)) =
             log w @ SessionWrite ?q # SearchCall ?q ''advanced'' 5 # rest"
    using assms run w2 by (cases r) (simp_all add: get_web_context_def Let_def emit_def)
  moreover have "\<forall>e. tavily_search cfg ?q = Inl e \<longrightarrow>
             get_web_context cfg query w =
               ((None, []),
                \<lparr>search_query = Some ?q,
                 log = log w @ [SessionWrite ?q, SearchCall ?q ''advanced'' 5,
                                Error (''An error occurred during web search: '' @ str_exn e)]\<rparr>)"
    using get_web_context_raises [OF assms] by blast
  ultimately show ?thesis by blast
qed

theorem search_query_written_before_call_witness:
  "get_web_context
     (fixed_env (Some ''tk'') (Some ''ok'') (Inl (ProviderError ''timeout'')) (Inr [Some ''Chitral'']))
     ''polo'' \<lparr>search_query = Some ''latest information on trout in Chitral, Pakistan'', log = []\<rparr> =
   ((None, []),
    \<lparr>search_query = Some ''latest information on polo in Chitral, Pakistan'',
     log = [SessionWrite ''latest information on polo in Chitral, Pakistan'',
            SearchCall ''latest information on polo in Chitral, Pakistan'' ''advanced'' 5,
            Error ''An error occurred during web search: timeout'']\<rparr>)"
  using search_query_written_before_call
    [of "fixed_env (Some ''tk'') (Some ''ok'') (Inl (ProviderError ''timeout'')) (Inr [Some ''Chitral''])"
        "''polo''" "\<lparr>search_query = Some ''latest information on trout in Chitral, Pakistan'', log = []\<rparr>"]
  by (simp add: fixed_env_def truthy_def make_search_query_def)

subsection \<open>The answer stage\<close>


lemma chat_raises:
  assumes "truthy (openai_api_key cfg)"
    and "build_prompt query web_context = (system_message, user_prompt)"
    and "chat_create cfg [(''system'', system_message), (''user'', user_prompt)] = Inl e"
  shows "get_ai_response_with_context cfg query web_context w =
           (None,
            w\<lparr>log := log w @ [ChatCall ''gpt-4'' [(''system'', system_message), (''user'', user_prompt)],
                               Error (''An OpenAI API error occurred: '' @ str_exn e)]\<rparr>)"
  using assms by (simp add: get_ai_response_with_context_def chat_try_def Let_def emit_def)

text \<open>
  C8. For every question and context, when the chat key is configured and the chat
  provider raises, \<open>get_ai_response_with_context\<close> returns normally: the result is
  \<open>None\<close>, which differs from the configuration-error string, and after the call
  the error is reported on the page with the exception's text.
\<close>

theorem chat_failure_is_absent:
  assumes "truthy (openai_api_key cfg)"
    and "build_prompt query web_context = (system_message, user_prompt)"
    and "chat_create cfg [(''system'', system_message), (''user'', user_prompt)] = Inl e"
  shows "get_ai_response_with_context cfg query web_context w =
           (None,
            w\<lparr>log := log w @ [ChatCall ''gpt-4'' [(''system'', system_message), (''user'', user_prompt)],
                               Error (''An OpenAI API error occurred: '' @ str_exn e)]\<rparr>)
         \<and> fst (get_ai_response_with_context cfg query web_context w) \<noteq> Some not_configured_message"
  using chat_raises [OF assms] by simp

theorem chat_failure_is_absent_witness:
  "get_ai_response_with_context
     (fixed_env (Some ''tk'') (Some ''ok'') (Inr NoResponse) (Inl (ProviderError ''Connection error.'')))
     ''where is Chitral'' None idle =
   (None,
    \<lparr>search_query = None,
     log = [ChatCall ''gpt-4'' [(''system'', general_system_message), (''user'', ''where is Chitral'')],
            Error ''An OpenAI API error occurred: Connection error.'']\<rparr>)"
  using chat_failure_is_absent
    [of "fixed_env (Some ''tk'') (Some ''ok'') (Inr NoResponse) (Inl (ProviderError ''Connection error.''))"
        "''where is Chitral''" None general_system_message "''where is Chitral''"
        "ProviderError ''Connection error.''" idle]
  by (simp add: fixed_env_def truthy_def build_prompt_def idle_def)

subsection \<open>The form submission handler\<close>

text \<open>
  C4, as stated, fails for whitespace: the handler tests \<open>if user_input:\<close>, and a
  single blank is a non-empty string. It is searched for and sent to the chat provider, and
  no validation notice appears.
\<close>

theorem whitespace_input_is_searched:
  "provider_calls (snd (on_submit
       (fixed_env (Some ''tk'') (Some ''ok'') (Inr (Response (Some []))) (Inr [Some ''Chitral'']))
       '' '' idle)) =
     [SearchCall ''latest information on   in Chitral, Pakistan'' ''advanced'' 5,
      ChatCall ''gpt-4''
        [(''system'', context_system_message),
         (''user'', context_user_prompt '' '' ''No relevant information found from web search.'')]]
   \<and> Warning ''Please ask a question first.'' \<notin> set (log (snd (on_submit
       (fixed_env (Some ''tk'') (Some ''ok'') (Inr (Response (Some []))) (Inr [Some ''Chitral'']))
       '' '' idle)))"
  by (simp add: on_submit_def get_web_context_def web_search_try_def
        get_ai_response_with_context_def chat_try_def build_prompt_def present_def
        fixed_env_def truthy_def idle_def emit_def provider_calls_def Let_def
        make_search_query_def no_results_context_def strip_def is_space_def)

text \<open>
  C4, amended. For the empty \<open>user_input\<close> the handler emits the notice
  \<open>Please ask a question first.\<close> and does nothing else: no provider call is made,
  no exception is raised, and the session state is unchanged.
\<close>

theorem empty_input_is_rejected:
  "on_submit cfg [] w = (None, w\<lparr>log := log w @ [Warning ''Please ask a question first.'']\<rparr>)
   \<and> provider_calls (snd (on_submit cfg [] w)) = provider_calls w"
  by (simp add: on_submit_def emit_def validation_notice_def provider_calls_def)

text \<open>
  C1, as stated, fails: when the provider returns zero results the context is the sentinel
  string, which is truthy, so the chat call carries the context-synthesis system message
  and not the general-knowledge one.
\<close>

theorem no_results_take_context_branch:
  "provider_calls (snd (on_submit
       (fixed_env (Some ''tk'') (Some ''ok'') (Inr (Response (Some []))) (Inr [Some ''Chitral'']))
       ''hi'' idle)) =
     [SearchCall ''latest information on hi in Chitral, Pakistan'' ''advanced'' 5,
      ChatCall ''gpt-4''
        [(''system'', context_system_message),
         (''user'', context_user_prompt ''hi'' ''No relevant information found from web search.'')]]
   \<and> context_system_message \<noteq> general_system_message"
  by (simp add: on_submit_def get_web_context_def web_search_try_def
        get_ai_response_with_context_def chat_try_def build_prompt_def present_def
        fixed_env_def truthy_def idle_def emit_def provider_calls_def Let_def
        make_search_query_def no_results_context_def strip_def is_space_def
        context_system_message_def general_system_message_def)

lemma provider_calls_present_no_sources:
  "provider_calls (snd (present final_response [] w)) = provider_calls w"
  by (simp add: present_def provider_calls_def emit_def Let_def split: option.splits)

text \<open>
  C1, amended. For every non-empty question, with both keys configured, when the search
  provider returns no results (a falsy response, no \<open>results\<close> entry or an empty
  list), the context handed to the generator is the sentinel
  \<open>No relevant information found from web search.\<close> and the one chat call of the
  submission is built by the context-synthesis branch, with the sentinel embedded as the
  web context.
\<close>

theorem no_results_prompt:
  assumes "user_input \<noteq> []"
    and "truthy (tavily_api_key cfg)"
    and "truthy (openai_api_key cfg)"
    and "tavily_search cfg (make_search_query user_input) = Inr response"
    and "hits response = []"
  shows "fst (get_web_context cfg user_input w) = (Some no_results_context, [])
       \<and> build_prompt user_input (Some no_results_context) =
           (context_system_message, context_user_prompt user_input no_results_context)
       \<and> provider_calls (snd (on_submit cfg user_input w)) =
           provider_calls w @
             [SearchCall (make_search_query user_input) ''advanced'' 5,
              ChatCall ''gpt-4''
                [(''system'', context_system_message),
                 (''user'', context_user_prompt user_input no_results_context)]]"
proof -
  have ctx: "\<And>w. get_web_context cfg user_input w =
           ((Some no_results_context, []),
            \<lparr>search_query = Some (make_search_query user_input),
             log = log w @ [SessionWrite (make_search_query user_input),
                            SearchCall (make_search_query user_input) ''advanced'' 5]\<rparr>)"
    using get_web_context_no_hits [OF assms(2,4,5)] .
  have prompt: "build_prompt user_input (Some no_results_context) =
           (context_system_message, context_user_prompt user_input no_results_context)"
    by (simp add: build_prompt_def no_results_context_def)
  have "provider_calls (snd (on_submit cfg user_input w)) =
           provider_calls w @
             [SearchCall (make_search_query user_input) ''advanced'' 5,
              ChatCall ''gpt-4''
                [(''system'', context_system_message),
                 (''user'', context_user_prompt user_input no_results_context)]]"
    using assms(1,3) prompt
    by (simp add: on_submit_def ctx get_ai_response_with_context_def chat_try_def Let_def
          provider_calls_present_no_sources
          split: sum.splits list.splits option.splits prod.splits)
       (auto simp: provider_calls_def emit_def)
  with ctx prompt show ?thesis by simp
qed

theorem no_results_prompt_witness:
  "provider_calls (snd (on_submit
       (fixed_env (Some ''tk'') (Some ''ok'') (Inr NoResponse) (Inr [Some ''Chitral'']))
       ''polo'' idle)) =
     [SearchCall ''latest information on polo in Chitral, Pakistan'' ''advanced'' 5,
      ChatCall ''gpt-4''
        [(''system'', context_system_message),
         (''user'', context_user_prompt ''polo'' ''No relevant information found from web search.'')]]"
  using no_results_prompt
    [of "''polo''" "fixed_env (Some ''tk'') (Some ''ok'') (Inr NoResponse) (Inr [Some ''Chitral''])"
        NoResponse idle]
  by (simp add: fixed_env_def truthy_def hits_def idle_def provider_calls_def
        make_search_query_def no_results_context_def)

text \<open>
  C3, as stated, fails for the configuration-error string: it is a non-empty string, so
  the handler renders it as the answer and then lists the sources; no failure notice is
  shown.
\<close>

theorem not_configured_shown_as_answer:
  "log (snd (on_submit
       (fixed_env (Some ''tk'') None (Inr (Response (Some kalash_hits))) (Inr [Some ''Chitral'']))
       ''hi'' idle)) =
     [Spinner (search_spinner_text ''hi''),
      SessionWrite ''latest information on hi in Chitral, Pakistan'',
      SearchCall ''latest information on hi in Chitral, Pakistan'' ''advanced'' 5,
      Spinner answer_spinner_text,
      Subheader ''Concierge Response:'',
      Markdown ''Error: OpenAI API key is not configured.'',
      Expander ''View Sources Used'',
      Markdown ''**1. Kalash**\<newline>   [Read more](A)'',
      Markdown ''**2. Bumburet**\<newline>   [Read more](B)'']
   \<and> Error failure_notice \<notin> set (log (snd (on_submit
       (fixed_env (Some ''tk'') None (Inr (Response (Some kalash_hits))) (Inr [Some ''Chitral'']))
       ''hi'' idle)))"
  by (simp add: on_submit_def get_web_context_def web_search_try_def
        get_ai_response_with_context_def present_def context_part_def getitem_def
        source_line_def fixed_env_def truthy_def idle_def emit_def Let_def kalash_hits_def
        make_search_query_def not_configured_message_def str_nat.simps digit_char_def)

text \<open>
  C3, amended. For every submission of a non-empty input in which the generator result
  is absent (\<open>None\<close>) or the empty string, the handler shows the sub-header and the
  generic failure notice and nothing more: the sources are not presented.
\<close>

theorem falsy_answer_gets_failure_notice:
  assumes "user_input \<noteq> []"
    and "get_web_context cfg user_input (emit (Spinner (search_spinner_text user_input)) w) =
           ((web_context, sources), w2)"
    and "get_ai_response_with_context cfg user_input web_context
           (emit (Spinner answer_spinner_text) w2) = (final_response, w4)"
    and "\<not> truthy final_response"
  shows "on_submit cfg user_input w =
           (None,
            w4\<lparr>log := log w4 @
               [Subheader ''Concierge Response:'',
                Error ''Sorry, I encountered an issue and was unable to process your request.'']\<rparr>)"
  using assms
  by (simp add: on_submit_def present_def truthy_def emit_def Let_def failure_notice_def
        split: option.splits)

theorem falsy_answer_gets_failure_notice_witness:
  "on_submit
     (fixed_env (Some ''tk'') (Some ''ok'') (Inr (Response (Some kalash_hits)))
        (Inl (ProviderError ''Connection error.'')))
     ''hi'' idle =
   (None,
    \<lparr>search_query = Some ''latest information on hi in Chitral, Pakistan'',
     log =
       [Spinner (search_spinner_text ''hi''),
        SessionWrite ''latest information on hi in Chitral, Pakistan'',
        SearchCall ''latest information on hi in Chitral, Pakistan'' ''advanced'' 5,
        Spinner answer_spinner_text,
        ChatCall ''gpt-4''
          [(''system'', context_system_message),
           (''user'', context_user_prompt ''hi''
              ''Source URL: A\<newline>Content: X\<newline>\<newline>---\<newline>\<newline>Source URL: B\<newline>Content: Y'')],
        Error ''An OpenAI API error occurred: Connection error.'',
        Subheader ''Concierge Response:'',
        Error ''Sorry, I encountered an issue and was unable to process your request.'']\<rparr>)"
  using falsy_answer_gets_failure_notice
    [of "''hi''"
        "fixed_env (Some ''tk'') (Some ''ok'') (Inr (Response (Some kalash_hits)))
           (Inl (ProviderError ''Connection error.''))"
        idle
        "Some ''Source URL: A\<newline>Content: X\<newline>\<newline>---\<newline>\<newline>Source URL: B\<newline>Content: Y''"
        kalash_hits
        "\<lparr>search_query = Some ''latest information on hi in Chitral, Pakistan'',
          log = [Spinner (search_spinner_text ''hi''),
                 SessionWrite ''latest information on hi in Chitral, Pakistan'',
                 SearchCall ''latest information on hi in Chitral, Pakistan'' ''advanced'' 5]\<rparr>"
        None
        "\<lparr>search_query = Some ''latest information on hi in Chitral, Pakistan'',
          log = [Spinner (search_spinner_text ''hi''),
                 SessionWrite ''latest information on hi in Chitral, Pakistan'',
                 SearchCall ''latest information on hi in Chitral, Pakistan'' ''advanced'' 5,
                 Spinner answer_spinner_text,
                 ChatCall ''gpt-4''
                   [(''system'', context_system_message),
                    (''user'', context_user_prompt ''hi''
                       ''Source URL: A\<newline>Content: X\<newline>\<newline>---\<newline>\<newline>Source URL: B\<newline>Content: Y'')],
                 Error ''An OpenAI API error occurred: Connection error.'']\<rparr>"]
  by (simp add: get_web_context_def web_search_try_def
        get_ai_response_with_context_def chat_try_def build_prompt_def context_part_def getitem_def
        fixed_env_def truthy_def idle_def emit_def Let_def kalash_hits_def
        make_search_query_def context_separator_def)






end
